theory Spec2Isabelle
  imports Main "HOL-Library.Sublist"
begin

section \<open>Values\<close>

text \<open>
  The program is \<^verbatim>\<open>rag_system.py\<close>: a class \<^verbatim>\<open>RAGSystem\<close> with a constructor and
  three methods (\<^verbatim>\<open>ingest_documents\<close>, \<^verbatim>\<open>query_system\<close>, \<^verbatim>\<open>self_learn\<close>) and a
  Streamlit front end that calls them. A Python exception is a value carrying the text
  that \<^verbatim>\<open>str(e)\<close> yields, which is all the program ever reads of it.
\<close>

datatype exn = Exception string

fun str_e :: "exn \<Rightarrow> string" where
  "str_e (Exception m) = m"

text \<open>A LangChain \<^verbatim>\<open>Document\<close>: text and a metadata dictionary.\<close>

record document =
  page_content :: string
  metadata :: "(string \<times> string) list"

text \<open>
  What the vector store keeps for one document: its text, its metadata and the vector
  the embedding model gave for the text. Vectors are of an arbitrary type \<open>'v\<close>.
\<close>

record 'v store_record =
  rec_text :: string
  rec_metadata :: "(string \<times> string) list"
  rec_embedding :: 'v

text \<open>A \<^verbatim>\<open>Chroma\<close> object: the directory it persists to and the records of its collection.\<close>

record 'v chroma =
  persist_directory :: string
  collection :: "'v store_record list"

text \<open>
  The arguments of \<^verbatim>\<open>ChatOllama(model=..., temperature=0.3, keep_alive="5m")\<close>. The
  temperature is kept as the literal of the source; nothing computes with it.
\<close>

record chat_ollama =
  model :: string
  temperature :: string
  keep_alive :: string

text \<open>
  The attributes of a \<^verbatim>\<open>RAGSystem\<close> object. \<open>embedding_model\<close> is \<open>None\<close> while the
  attribute has never been assigned (the constructor failed before line 27 completed);
  \<open>vectordb\<close> and \<open>llm\<close> are \<open>None\<close> where Python holds \<^verbatim>\<open>None\<close>.
\<close>

record 'v rag_system =
  embedding_model :: "string option"
  vectordb :: "'v chroma option"
  llm :: "chat_ollama option"

text \<open>
  The calls that leave the program, in the order they are made. Those the source makes
  itself: to the file loader, to the text splitter with its chunk size and overlap, to
  \<^verbatim>\<open>Chroma.from_documents\<close> with the chunks and the directory, to \<^verbatim>\<open>add_documents\<close> with
  the documents, to the retrieval chain with the query and the retriever's \<open>k\<close>, and to the
  Streamlit output functions. Those made inside LangChain and Chroma on its behalf:
  opening the store's directory, embedding one text, writing a batch of records to a
  directory, prompting the language model.
\<close>

datatype event =
    Load_call string
  | Split_call nat nat
  | From_documents_call "document list" string
  | Add_documents_call "document list"
  | Invoke_call string nat
  | Open_call string
  | Embed_call string
  | Write_call string nat
  | Generate_call string
  | St_error string
  | St_success string
  | St_write string

section \<open>The collaborators outside the repository\<close>

text \<open>
  Everything the program imports is a parameter: the file system, Ollama's two models,
  LangChain's loader, splitter and prompt, and Chroma's storage and ranking. Each field
  says what one call answers; \<open>Inl e\<close> is the call raising \<open>e\<close>.
  \<^item> \<open>os_path_exists\<close>: \<^verbatim>\<open>os.path.exists\<close>.
  \<^item> \<open>ollama_embeddings\<close>, \<open>chat_ollama_new\<close>: the two constructors; \<open>Some e\<close> is a raise.
  \<^item> \<open>chroma_open\<close>: \<^verbatim>\<open>Chroma(persist_directory=p, ...)\<close>, the records found at \<open>p\<close>
    (none when nothing is there yet).
  \<^item> \<open>text_loader_load\<close>: \<^verbatim>\<open>TextLoader(path, encoding='utf-8').load()\<close>.
  \<^item> \<open>split_documents\<close>: \<^verbatim>\<open>RecursiveCharacterTextSplitter(chunk_size, chunk_overlap)
    .split_documents(documents)\<close>.
  \<^item> \<open>embed\<close>: the embedding model on one text.
  \<^item> \<open>write_error\<close>: whether writing a batch of records to a directory fails.
  \<^item> \<open>rank\<close>: the records of a collection ordered by similarity to a query vector.
  \<^item> \<open>stuff_prompt\<close>: the prompt of the "stuff" chain for the retrieved documents and
    the question.
  \<^item> \<open>llm_generate\<close>: the language model on a prompt.
  \<^item> \<open>chroma_bool\<close>: the truth value Python gives a \<^verbatim>\<open>Chroma\<close> object in a condition,
    which the class decides.
\<close>

record 'v env =
  os_path_exists :: "string \<Rightarrow> bool"
  ollama_embeddings :: "string \<Rightarrow> exn option"
  chat_ollama_new :: "chat_ollama \<Rightarrow> exn option"
  chroma_open :: "string \<Rightarrow> exn + 'v store_record list"
  text_loader_load :: "string \<Rightarrow> exn + document list"
  split_documents :: "nat \<Rightarrow> nat \<Rightarrow> document list \<Rightarrow> exn + document list"
  embed :: "string \<Rightarrow> exn + 'v"
  write_error :: "string \<Rightarrow> 'v store_record list \<Rightarrow> exn option"
  rank :: "'v \<Rightarrow> 'v store_record list \<Rightarrow> 'v store_record list"
  stuff_prompt :: "document list \<Rightarrow> string \<Rightarrow> string"
  llm_generate :: "chat_ollama \<Rightarrow> string \<Rightarrow> exn + string"
  chroma_bool :: "'v chroma \<Rightarrow> bool"

section \<open>Configuration and Python built-ins\<close>

definition PERSIST_DIRECTORY :: string where
  "PERSIST_DIRECTORY = ''./chroma_db_qwen''"

text \<open>The decimal digit for a number below ten.\<close>

definition digit_char :: "nat \<Rightarrow> char" where
  "digit_char d = ''0123456789'' ! d"

text \<open>Python's \<^verbatim>\<open>str\<close> on a non-negative integer, as the f-string of line 64 formats it.\<close>

function str_of_nat :: "nat \<Rightarrow> string" where
  "str_of_nat n = (if n < 10 then [digit_char n] else str_of_nat (n div 10) @ [digit_char (n mod 10)])"
  by pat_completeness auto
termination
  by (relation "measure id") auto

declare str_of_nat.simps [simp del]

text \<open>The text of the \<^verbatim>\<open>AttributeError\<close> for a missing attribute.\<close>

definition attribute_error :: "string \<Rightarrow> string \<Rightarrow> exn" where
  "attribute_error obj attr =
     Exception ([CHR 0x27] @ obj @ [CHR 0x27] @ '' object has no attribute '' @ [CHR 0x27] @ attr @ [CHR 0x27])"

section \<open>The vector store and the retrieval chain\<close>

text \<open>Embedding a batch of texts: one call per text, stopping at the first raise.\<close>

fun embed_documents :: "'v env \<Rightarrow> string list \<Rightarrow> (exn + 'v list) \<times> event list" where
  "embed_documents E [] = (Inr [], [])"
| "embed_documents E (t # ts) =
     (case embed E t of
        Inl e \<Rightarrow> (Inl e, [Embed_call t])
      | Inr v \<Rightarrow>
          (case embed_documents E ts of
             (Inl e, tr) \<Rightarrow> (Inl e, Embed_call t # tr)
           | (Inr vs, tr) \<Rightarrow> (Inr (v # vs), Embed_call t # tr)))"

definition make_record :: "document \<Rightarrow> 'v \<Rightarrow> 'v store_record" where
  "make_record d v = \<lparr>rec_text = page_content d, rec_metadata = metadata d, rec_embedding = v\<rparr>"

definition doc_of :: "'v store_record \<Rightarrow> document" where
  "doc_of r = \<lparr>page_content = rec_text r, metadata = rec_metadata r\<rparr>"

text \<open>
  Modelled from the spec: \<^verbatim>\<open>Chroma.add_documents\<close> (LangChain, not in the repository),
  after its sections 4.2 and 4.3: embed each chunk; build one record per chunk with the
  chunk's text and metadata; upsert all records as one batch call. A raise at either
  step leaves the collection as it was. Record ids are left out.
\<close>

definition add_documents ::
  "'v env \<Rightarrow> 'v chroma \<Rightarrow> document list \<Rightarrow> (exn + 'v chroma) \<times> event list" where
  "add_documents E db docs =
     (case embed_documents E (map page_content docs) of
        (Inl e, tr) \<Rightarrow> (Inl e, tr)
      | (Inr vs, tr) \<Rightarrow>
          (let recs = map2 make_record docs vs;
               tr' = tr @ [Write_call (persist_directory db) (length recs)]
           in case write_error E (persist_directory db) recs of
                Some e \<Rightarrow> (Inl e, tr')
              | None \<Rightarrow> (Inr (db\<lparr>collection := collection db @ recs\<rparr>), tr')))"

text \<open>
  Modelled from the spec: \<^verbatim>\<open>Chroma.from_documents\<close> (LangChain, not in the repository),
  after "the first successful upsert call both creates and persists it at a configured
  location": open the store at the directory, then add the documents to it.
\<close>

definition from_documents ::
  "'v env \<Rightarrow> document list \<Rightarrow> string \<Rightarrow> (exn + 'v chroma) \<times> event list" where
  "from_documents E docs dir =
     (case chroma_open E dir of
        Inl e \<Rightarrow> (Inl e, [Open_call dir])
      | Inr recs \<Rightarrow>
          (case add_documents E \<lparr>persist_directory = dir, collection = recs\<rparr> docs of
             (r, tr) \<Rightarrow> (r, Open_call dir # tr)))"

text \<open>
  Modelled from the spec: the chain \<^verbatim>\<open>RetrievalQA.from_chain_type(llm, "stuff",
  retriever, return_source_documents=True).invoke\<close> (LangChain, not in the repository),
  after steps 2 to 5 of its section 4.4: embed the query; take the \<open>k\<close> best-ranked
  records; stuff their texts and the query into one prompt; call the language model;
  answer its text with the ranked passages.
\<close>

definition qa_chain_invoke ::
  "'v env \<Rightarrow> 'v chroma \<Rightarrow> nat \<Rightarrow> chat_ollama \<Rightarrow> string
     \<Rightarrow> (exn + string \<times> document list) \<times> event list" where
  "qa_chain_invoke E db k m query =
     (case embed E query of
        Inl e \<Rightarrow> (Inl e, [Embed_call query])
      | Inr v \<Rightarrow>
          (let source_documents = map doc_of (take k (rank E v (collection db)));
               prompt = stuff_prompt E source_documents query
           in case llm_generate E m prompt of
                Inl e \<Rightarrow> (Inl e, [Embed_call query, Generate_call prompt])
              | Inr result \<Rightarrow>
                  (Inr (result, source_documents), [Embed_call query, Generate_call prompt])))"

section \<open>RAGSystem\<close>

text \<open>
  Each method's \<^verbatim>\<open>except Exception\<close> catches whatever a collaborator raises; an exception
  is a value \<open>Inl e\<close> of the body and the handler turns it into the value returned.
  Interrupts of the process and the spinner and heading calls of the front end are left out.
\<close>

definition failed_to_connect :: "exn \<Rightarrow> string" where
  "failed_to_connect e =
     ''Failed to connect to Ollama. Ensure Ollama is running and models are pulled. Error: '' @ str_e e"

definition the_llm :: chat_ollama where
  "the_llm = \<lparr>model = ''qwen2.5-coder:3b'', temperature = ''0.3'', keep_alive = ''5m''\<rparr>"

text \<open>
  \<^verbatim>\<open>RAGSystem.__init__\<close> (lines 24 to 45). A raise at any of the three steps runs the
  handler: \<^verbatim>\<open>st.error\<close>, then \<open>vectordb\<close> and \<open>llm\<close> are set to \<^verbatim>\<open>None\<close>; an attribute
  assigned before the raise keeps its value.
\<close>

definition rag_init :: "'v env \<Rightarrow> 'v rag_system \<times> event list" where
  "rag_init E =
     (case ollama_embeddings E ''nomic-embed-text'' of
        Some e \<Rightarrow>
          (\<lparr>embedding_model = None, vectordb = None, llm = None\<rparr>, [St_error (failed_to_connect e)])
      | None \<Rightarrow>
          (case (if os_path_exists E PERSIST_DIRECTORY
                 then (case chroma_open E PERSIST_DIRECTORY of
                         Inl e \<Rightarrow> (Inl e, [Open_call PERSIST_DIRECTORY])
                       | Inr recs \<Rightarrow>
                           (Inr (Some \<lparr>persist_directory = PERSIST_DIRECTORY, collection = recs\<rparr>),
                            [Open_call PERSIST_DIRECTORY]))
                 else (Inr None, [])) of
             (Inl e, tr) \<Rightarrow>
               (\<lparr>embedding_model = Some ''nomic-embed-text'', vectordb = None, llm = None\<rparr>,
                tr @ [St_error (failed_to_connect e)])
           | (Inr db, tr) \<Rightarrow>
               (case chat_ollama_new E the_llm of
                  Some e \<Rightarrow>
                    (\<lparr>embedding_model = Some ''nomic-embed-text'', vectordb = None, llm = None\<rparr>,
                     tr @ [St_error (failed_to_connect e)])
                | None \<Rightarrow>
                    (\<lparr>embedding_model = Some ''nomic-embed-text'', vectordb = db, llm = Some the_llm\<rparr>,
                     tr))))"

definition success_message :: "nat \<Rightarrow> string" where
  "success_message n = ''Successfully processed '' @ str_of_nat n @ '' chunks using Ollama embeddings.''"

text \<open>
  The body of the \<^verbatim>\<open>try\<close> of \<^verbatim>\<open>ingest_documents\<close> (lines 49 to 64): the number of chunks
  and the new value of \<open>vectordb\<close>, or the exception raised. With \<open>vectordb\<close> \<^verbatim>\<open>None\<close> the
  arguments of \<^verbatim>\<open>Chroma.from_documents\<close> are evaluated first, and reading an
  \<open>embedding_model\<close> that was never assigned raises.
\<close>

definition ingest_body ::
  "'v env \<Rightarrow> 'v rag_system \<Rightarrow> string \<Rightarrow> (exn + nat \<times> 'v chroma) \<times> event list" where
  "ingest_body E R file_path =
     (case text_loader_load E file_path of
        Inl e \<Rightarrow> (Inl e, [Load_call file_path])
      | Inr documents \<Rightarrow>
          (case split_documents E 800 100 documents of
             Inl e \<Rightarrow> (Inl e, [Load_call file_path, Split_call 800 100])
           | Inr chunks \<Rightarrow>
               (case (case vectordb R of
                        None \<Rightarrow>
                          (case embedding_model R of
                             None \<Rightarrow> (Inl (attribute_error ''RAGSystem'' ''embedding_model''), [])
                           | Some _ \<Rightarrow>
                               (case from_documents E chunks PERSIST_DIRECTORY of
                                  (r, tr) \<Rightarrow> (r, From_documents_call chunks PERSIST_DIRECTORY # tr)))
                      | Some db \<Rightarrow>
                          (case add_documents E db chunks of
                             (r, tr) \<Rightarrow> (r, Add_documents_call chunks # tr))) of
                  (Inl e, tr) \<Rightarrow> (Inl e, [Load_call file_path, Split_call 800 100] @ tr)
                | (Inr db', tr) \<Rightarrow>
                    (Inr (length chunks, db'), [Load_call file_path, Split_call 800 100] @ tr))))"

text \<open>\<^verbatim>\<open>ingest_documents\<close> (lines 47 to 66): the message returned, the object after the call, the calls made.\<close>

definition ingest_documents ::
  "'v env \<Rightarrow> 'v rag_system \<Rightarrow> string \<Rightarrow> string \<times> 'v rag_system \<times> event list" where
  "ingest_documents E R file_path =
     (case ingest_body E R file_path of
        (Inr (n, db'), tr) \<Rightarrow> (success_message n, R\<lparr>vectordb := Some db'\<rparr>, tr)
      | (Inl e, tr) \<Rightarrow> (''Error during ingestion: '' @ str_e e, R, tr))"

definition not_initialized :: string where
  "not_initialized = ''System is not properly initialized. Check Ollama status.''"

text \<open>Python's \<^verbatim>\<open>not self.vectordb\<close>: true of \<^verbatim>\<open>None\<close>, and of an object whose truth value is false.\<close>

definition not_vectordb :: "'v env \<Rightarrow> 'v chroma option \<Rightarrow> bool" where
  "not_vectordb E x = (case x of None \<Rightarrow> True | Some db \<Rightarrow> \<not> chroma_bool E db)"

text \<open>
  \<^verbatim>\<open>query_system\<close> (lines 68 to 85): the pair returned, the object after the call, the
  calls made. A \<^verbatim>\<open>ChatOllama\<close> object counts as true, so \<^verbatim>\<open>not self.llm\<close> holds of \<^verbatim>\<open>None\<close>
  only; the retriever is asked for \<open>k = 3\<close> passages.
\<close>

definition query_system ::
  "'v env \<Rightarrow> 'v rag_system \<Rightarrow> string \<Rightarrow> (string \<times> document list) \<times> 'v rag_system \<times> event list" where
  "query_system E R query =
     (if not_vectordb E (vectordb R) \<or> llm R = None then ((not_initialized, []), R, [])
      else
        (case (vectordb R, llm R) of
           (Some db, Some m) \<Rightarrow>
             (case qa_chain_invoke E db 3 m query of
                (Inr (result, source_documents), tr) \<Rightarrow>
                  ((result, source_documents), R, Invoke_call query 3 # tr)
              | (Inl e, tr) \<Rightarrow>
                  ((''Error during query: '' @ str_e e, []), R, Invoke_call query 3 # tr))
         | _ \<Rightarrow> ((not_initialized, []), R, [])))"

definition new_knowledge :: "string \<Rightarrow> string \<Rightarrow> string" where
  "new_knowledge query answer = ''Question: '' @ query @ [CHR 0x0A] @ ''Verified Answer: '' @ answer"

definition feedback_doc :: "string \<Rightarrow> string \<Rightarrow> document" where
  "feedback_doc query answer =
     \<lparr>page_content = new_knowledge query answer, metadata = [(''source'', ''user_feedback'')]\<rparr>"

definition learned :: string where
  "learned = ''System updated! I will remember this answer for next time.''"

text \<open>
  The body of the \<^verbatim>\<open>try\<close> of \<^verbatim>\<open>self_learn\<close> (lines 89 to 92). Calling \<^verbatim>\<open>add_documents\<close>
  on \<^verbatim>\<open>None\<close> raises an \<^verbatim>\<open>AttributeError\<close>.
\<close>

definition learn_body ::
  "'v env \<Rightarrow> 'v rag_system \<Rightarrow> string \<Rightarrow> string \<Rightarrow> (exn + 'v chroma) \<times> event list" where
  "learn_body E R query answer =
     (case vectordb R of
        None \<Rightarrow> (Inl (attribute_error ''NoneType'' ''add_documents''), [])
      | Some db \<Rightarrow>
          (case add_documents E db [feedback_doc query answer] of
             (r, tr) \<Rightarrow> (r, Add_documents_call [feedback_doc query answer] # tr)))"

text \<open>\<^verbatim>\<open>self_learn\<close> (lines 87 to 94).\<close>

definition self_learn ::
  "'v env \<Rightarrow> 'v rag_system \<Rightarrow> string \<Rightarrow> string \<Rightarrow> string \<times> 'v rag_system \<times> event list" where
  "self_learn E R query answer =
     (case learn_body E R query answer of
        (Inr db', tr) \<Rightarrow> (learned, R\<lparr>vectordb := Some db'\<rparr>, tr)
      | (Inl e, tr) \<Rightarrow> (''Error during self-learning: '' @ str_e e, R, tr))"

section \<open>The front end's two handlers\<close>

text \<open>
  The Streamlit session: the \<^verbatim>\<open>RAGSystem\<close> object and the three keys \<^verbatim>\<open>last_query\<close>,
  \<^verbatim>\<open>last_answer\<close>, \<^verbatim>\<open>last_sources\<close>, which lines 181 to 183 always write together.
\<close>

record 'v session =
  rag :: "'v rag_system"
  last_round :: "(string \<times> string \<times> document list) option"

text \<open>The button "Generate Insight" (lines 175 to 183): nothing happens on an empty text input.\<close>

definition generate_insight :: "'v env \<Rightarrow> 'v session \<Rightarrow> string \<Rightarrow> 'v session \<times> event list" where
  "generate_insight E S user_query =
     (if user_query \<noteq> [] then
        (case query_system E (rag S) user_query of
           ((answer, sources), R', tr) \<Rightarrow>
             (S\<lparr>rag := R', last_round := Some (user_query, answer, sources)\<rparr>, tr @ [St_write answer]))
      else (S, []))"

text \<open>The button "Confirm & Learn" (lines 200 to 209): the message goes to \<^verbatim>\<open>st.success\<close> whatever it says.\<close>

definition confirm_and_learn :: "'v env \<Rightarrow> 'v session \<Rightarrow> 'v session \<times> event list" where
  "confirm_and_learn E S =
     (case last_round S of
        None \<Rightarrow> (S, [])
      | Some (q, a, _) \<Rightarrow>
          (case self_learn E (rag S) q a of
             (msg, R', tr) \<Rightarrow> (S\<lparr>rag := R'\<rparr>, tr @ [St_success msg])))"

section \<open>Concrete collaborators and objects\<close>

text \<open>
  A small world in which every collaborator answers: no store directory yet, a loader
  that reads one document, a splitter that cuts it in two, an embedding that is the
  length of the text, a ranking in insertion order, a language model with one answer,
  and a store object that counts as true whatever it holds, as a Python object does
  whose class gives it no truth value of its own.
\<close>

definition env0 :: "nat env" where
  "env0 =
     \<lparr>os_path_exists = (\<lambda>_. False),
      ollama_embeddings = (\<lambda>_. None),
      chat_ollama_new = (\<lambda>_. None),
      chroma_open = (\<lambda>_. Inr []),
      text_loader_load = (\<lambda>p. Inr [\<lparr>page_content = ''alpha beta'', metadata = [(''source'', p)]\<rparr>]),
      split_documents = (\<lambda>n ov ds. Inr (concat (map (\<lambda>d.
         [d\<lparr>page_content := take 5 (page_content d)\<rparr>,
          d\<lparr>page_content := drop 6 (page_content d)\<rparr>]) ds))),
      embed = (\<lambda>t. Inr (length t)),
      write_error = (\<lambda>_ _. None),
      rank = (\<lambda>v rs. rs),
      stuff_prompt = (\<lambda>ds q. concat (map page_content ds) @ q),
      llm_generate = (\<lambda>m p. Inr ''X is Y.''),
      chroma_bool = (\<lambda>db. True)\<rparr>"

text \<open>The same world with the language model unreachable, and with the embedding model unreachable.\<close>

definition env_llm_down :: "nat env" where
  "env_llm_down = env0\<lparr>llm_generate := (\<lambda>m p. Inl (Exception ''timed out''))\<rparr>"

definition env_embed_down :: "nat env" where
  "env_embed_down = env0\<lparr>embed := (\<lambda>t. Inl (Exception ''connection refused''))\<rparr>"

text \<open>The same world with a language model that answers otherwise.\<close>

definition env_llm_other :: "nat env" where
  "env_llm_other = env0\<lparr>llm_generate := (\<lambda>m p. Inr ''Y, I think.'')\<rparr>"

text \<open>The same world where the constructor of the language model raises.\<close>

definition env_no_llm :: "nat env" where
  "env_no_llm = env0\<lparr>chat_ollama_new := (\<lambda>_. Some (Exception ''connection refused''))\<rparr>"

text \<open>The same world with the store directory on disk and nothing in it.\<close>

definition env_dir :: "nat env" where
  "env_dir = env0\<lparr>os_path_exists := (\<lambda>_. True)\<rparr>"

text \<open>The object constructed in that world: a store with no record, a language model.\<close>

definition rag_empty :: "nat rag_system" where
  "rag_empty =
     \<lparr>embedding_model = Some ''nomic-embed-text'',
      vectordb = Some \<lparr>persist_directory = ''./chroma_db_qwen'', collection = []\<rparr>,
      llm = Some the_llm\<rparr>"

text \<open>The object after construction with no directory on disk: no store, a language model.\<close>

definition rag_fresh :: "nat rag_system" where
  "rag_fresh = \<lparr>embedding_model = Some ''nomic-embed-text'', vectordb = None, llm = Some the_llm\<rparr>"

definition two_chunks :: "nat store_record list" where
  "two_chunks =
     [\<lparr>rec_text = ''alpha'', rec_metadata = [(''source'', ''temp_data.txt'')], rec_embedding = 5\<rparr>,
      \<lparr>rec_text = ''beta'', rec_metadata = [(''source'', ''temp_data.txt'')], rec_embedding = 4\<rparr>]"

text \<open>The object after one ingestion of \<^verbatim>\<open>temp_data.txt\<close> in that world.\<close>

definition rag_ready :: "nat rag_system" where
  "rag_ready =
     \<lparr>embedding_model = Some ''nomic-embed-text'',
      vectordb = Some \<lparr>persist_directory = ''./chroma_db_qwen'', collection = two_chunks\<rparr>,
      llm = Some the_llm\<rparr>"

text \<open>
  The object when the language model's constructor raised and a file was ingested
  afterwards: a populated store, no language model.
\<close>

definition rag_no_llm :: "nat rag_system" where
  "rag_no_llm =
     \<lparr>embedding_model = Some ''nomic-embed-text'',
      vectordb = Some \<lparr>persist_directory = ''./chroma_db_qwen'', collection = two_chunks\<rparr>,
      llm = None\<rparr>"

text \<open>The two passages of that store, as documents.\<close>

definition two_sources :: "document list" where
  "two_sources =
     [\<lparr>page_content = ''alpha'', metadata = [(''source'', ''temp_data.txt'')]\<rparr>,
      \<lparr>page_content = ''beta'', metadata = [(''source'', ''temp_data.txt'')]\<rparr>]"

text \<open>The calls of the first ingestion of \<^verbatim>\<open>temp_data.txt\<close> in that world.\<close>

definition first_ingest_trace :: "event list" where
  "first_ingest_trace =
     [Load_call ''temp_data.txt'', Split_call 800 100,
      From_documents_call two_sources ''./chroma_db_qwen'', Open_call ''./chroma_db_qwen'',
      Embed_call ''alpha'', Embed_call ''beta'', Write_call ''./chroma_db_qwen'' 2]"

section \<open>Facts about the store and the chain\<close>

lemmas world_defs = env0_def env_llm_down_def env_llm_other_def env_embed_down_def
  env_no_llm_def env_dir_def rag_empty_def rag_fresh_def rag_ready_def rag_no_llm_def two_chunks_def two_sources_def the_llm_def

lemmas op_defs = rag_init_def ingest_documents_def ingest_body_def from_documents_def add_documents_def
  query_system_def qa_chain_invoke_def self_learn_def learn_body_def not_vectordb_def
  generate_insight_def confirm_and_learn_def
  PERSIST_DIRECTORY_def make_record_def doc_of_def success_message_def not_initialized_def
  new_knowledge_def feedback_doc_def learned_def attribute_error_def failed_to_connect_def
  digit_char_def

lemma embed_documents_length:
  "embed_documents E ts = (Inr vs, tr) \<Longrightarrow> length vs = length ts"
  by (induction ts arbitrary: vs tr) (auto split: sum.splits prod.splits)

lemma embed_documents_no_other_call:
  "set (snd (embed_documents E ts)) \<subseteq> Embed_call ` set ts"
  by (induction ts) (auto split: sum.splits prod.splits)

lemma add_documents_Inr:
  assumes "add_documents E db docs = (Inr db', tr)"
  shows "\<exists>vs tr0. embed_documents E (map page_content docs) = (Inr vs, tr0)
           \<and> length vs = length docs
           \<and> write_error E (persist_directory db) (map2 make_record docs vs) = None
           \<and> db' = db\<lparr>collection := collection db @ map2 make_record docs vs\<rparr>
           \<and> tr = tr0 @ [Write_call (persist_directory db) (length docs)]"
proof -
  obtain r tr0 where emb: "embed_documents E (map page_content docs) = (r, tr0)"
    by (cases "embed_documents E (map page_content docs)")
  from assms emb obtain vs where r: "r = Inr vs"
    by (cases r) (auto simp: add_documents_def)
  have len: "length vs = length docs"
    using embed_documents_length [of E "map page_content docs" vs tr0] emb r by simp
  from assms emb r len show ?thesis
    by (auto simp: add_documents_def Let_def split: option.splits)
qed

lemma add_documents_embed_raises:
  assumes "embed_documents E (map page_content docs) = (Inl e, tr)"
  shows "add_documents E db docs = (Inl e, tr)"
  using assms by (simp add: add_documents_def)

lemma add_documents_no_write_on_embed_raise:
  assumes "fst (embed_documents E (map page_content docs)) = Inl e"
  shows "add_documents E db docs = (Inl e, snd (embed_documents E (map page_content docs)))"
  using assms by (cases "embed_documents E (map page_content docs)") (simp add: add_documents_def)

lemma embed_trace_no_write: "Write_call d n \<notin> set (snd (embed_documents E ts))"
  using embed_documents_no_other_call [of E ts] by auto

lemma doc_of_make_record: "doc_of (make_record d v) = (d :: document)"
  by (simp add: doc_of_def make_record_def)

lemma map_doc_of_map2:
  "length vs = length ds \<Longrightarrow> map doc_of (map2 make_record ds vs) = (ds :: document list)"
  by (induction ds vs rule: list_induct2') (simp_all add: doc_of_make_record)

lemma from_documents_Inr:
  assumes "from_documents E docs dir = (Inr db', tr)"
  shows "\<exists>recs tr1. chroma_open E dir = Inr recs
           \<and> add_documents E \<lparr>persist_directory = dir, collection = recs\<rparr> docs = (Inr db', tr1)
           \<and> tr = Open_call dir # tr1"
  using assms by (auto simp: from_documents_def split: sum.splits prod.splits)

lemma ingest_body_Inr:
  assumes "ingest_body E R file_path = (Inr (n, db'), tr)"
  shows "\<exists>documents chunks old vs tr1.
           text_loader_load E file_path = Inr documents
         \<and> split_documents E 800 100 documents = Inr chunks
         \<and> n = length chunks
         \<and> length vs = length chunks
         \<and> (case vectordb R of
              Some db \<Rightarrow> old = collection db \<and> persist_directory db' = persist_directory db
            | None \<Rightarrow> chroma_open E PERSIST_DIRECTORY = Inr old \<and> persist_directory db' = PERSIST_DIRECTORY)
         \<and> collection db' = old @ map2 make_record chunks vs
         \<and> tr = Load_call file_path # Split_call 800 100
                # (case vectordb R of
                     Some db \<Rightarrow> Add_documents_call chunks
                   | None \<Rightarrow> From_documents_call chunks PERSIST_DIRECTORY)
                # tr1 @ [Write_call (persist_directory db') (length chunks)]"
proof -
  from assms obtain documents where ld: "text_loader_load E file_path = Inr documents"
    by (auto simp: ingest_body_def split: sum.splits)
  from assms ld obtain chunks where sp: "split_documents E 800 100 documents = Inr chunks"
    by (auto simp: ingest_body_def split: sum.splits)
  show ?thesis
  proof (cases "vectordb R")
    case (Some db)
    with assms ld sp obtain tr0 where add: "add_documents E db chunks = (Inr db', tr0)"
      and n: "n = length chunks"
      and tr: "tr = [Load_call file_path, Split_call 800 100, Add_documents_call chunks] @ tr0"
      by (auto simp: ingest_body_def split: sum.splits prod.splits)
    from add_documents_Inr [OF add] ld sp n tr Some show ?thesis
      by auto
  next
    case None
    with assms ld sp obtain tr0 where fd: "from_documents E chunks PERSIST_DIRECTORY = (Inr db', tr0)"
      and n: "n = length chunks"
      and tr: "tr = [Load_call file_path, Split_call 800 100,
                     From_documents_call chunks PERSIST_DIRECTORY] @ tr0"
      by (auto simp: ingest_body_def split: sum.splits prod.splits option.splits)
    from from_documents_Inr [OF fd] obtain recs tr1 where
      op: "chroma_open E PERSIST_DIRECTORY = Inr recs"
      and add: "add_documents E \<lparr>persist_directory = PERSIST_DIRECTORY, collection = recs\<rparr> chunks = (Inr db', tr1)"
      and tr0: "tr0 = Open_call PERSIST_DIRECTORY # tr1"
      by blast
    from add_documents_Inr [OF add] ld sp n tr None op tr0 show ?thesis
      by auto
  qed
qed

lemma ingest_raise_result:
  assumes "ingest_body E R file_path = (Inl e', tr)"
  shows "ingest_documents E R file_path = (''Error during ingestion: '' @ str_e e', R, tr)"
  using assms by (simp add: ingest_documents_def)

lemma query_system_state: "fst (snd (query_system E R query)) = R"
  by (auto simp: query_system_def split: option.splits sum.splits prod.splits)

text \<open>The concrete objects are states the program reaches in the concrete worlds.\<close>

lemma rag_fresh_reached: "rag_init env0 = (rag_fresh, [])"
  by (simp add: world_defs op_defs)

lemma rag_ready_reached:
  "ingest_documents env0 rag_fresh ''temp_data.txt'' =
     (''Successfully processed 2 chunks using Ollama embeddings.'', rag_ready,
      [Load_call ''temp_data.txt'', Split_call 800 100,
       From_documents_call two_sources ''./chroma_db_qwen'', Open_call ''./chroma_db_qwen'',
       Embed_call ''alpha'', Embed_call ''beta'', Write_call ''./chroma_db_qwen'' 2])"
  by (simp add: world_defs op_defs str_of_nat.simps)

lemma rag_empty_reached: "rag_init env_dir = (rag_empty, [Open_call ''./chroma_db_qwen''])"
  by (simp add: world_defs op_defs)

lemma rag_no_llm_reached:
  "fst (snd (ingest_documents env_no_llm (fst (rag_init env_no_llm)) ''temp_data.txt'')) = rag_no_llm"
  by (simp add: world_defs op_defs str_of_nat.simps)

section \<open>Querying without a store\<close>




section \<open>Learning from feedback\<close>

text \<open>
  C2, as the code has it: a successful \<^verbatim>\<open>self_learn\<close> builds exactly the text
  \<^verbatim>\<open>Question: {query}\nVerified Answer: {answer}\<close> with the metadata
  \<^verbatim>\<open>source = user_feedback\<close> and hands it as one document straight to the store's
  \<^verbatim>\<open>add_documents\<close>: whatever its length it is embedded once and written as one record,
  and neither the loader nor the splitter is called.
\<close>

theorem self_learn_adds_one_document:
  assumes "self_learn E R query answer = (learned, R', tr)"
  shows "\<exists>db v. vectordb R = Some db
           \<and> embed E (''Question: '' @ query @ [CHR 0x0A] @ ''Verified Answer: '' @ answer) = Inr v
           \<and> R' = R\<lparr>vectordb := Some (db\<lparr>collection := collection db @
                 [\<lparr>rec_text = ''Question: '' @ query @ [CHR 0x0A] @ ''Verified Answer: '' @ answer,
                   rec_metadata = [(''source'', ''user_feedback'')],
                   rec_embedding = v\<rparr>]\<rparr>)\<rparr>
           \<and> tr = [Add_documents_call
                     [\<lparr>page_content = ''Question: '' @ query @ [CHR 0x0A] @ ''Verified Answer: '' @ answer,
                       metadata = [(''source'', ''user_feedback'')]\<rparr>],
                   Embed_call (''Question: '' @ query @ [CHR 0x0A] @ ''Verified Answer: '' @ answer),
                   Write_call (persist_directory db) 1]"
proof -
  obtain r tr0 where body: "learn_body E R query answer = (r, tr0)"
    by (cases "learn_body E R query answer")
  from assms body obtain db' where r: "r = Inr db'" and R': "R' = R\<lparr>vectordb := Some db'\<rparr>" and tr: "tr = tr0"
    by (cases r) (auto simp: self_learn_def learned_def)
  from body r obtain db tr2 where db: "vectordb R = Some db"
    and add: "add_documents E db [feedback_doc query answer] = (Inr db', tr2)"
    and tr2: "tr0 = Add_documents_call [feedback_doc query answer] # tr2"
    by (cases "vectordb R") (auto simp: learn_body_def split: prod.splits)
  from add_documents_Inr [OF add] obtain vs tr1 where
    emb: "embed_documents E [new_knowledge query answer] = (Inr vs, tr1)"
    and db': "db' = db\<lparr>collection := collection db @ map2 make_record [feedback_doc query answer] vs\<rparr>"
    and tr0: "tr2 = tr1 @ [Write_call (persist_directory db) 1]"
    by (auto simp: feedback_doc_def)
  from emb obtain v where v: "embed E (new_knowledge query answer) = Inr v" and vs: "vs = [v]"
    and tr1: "tr1 = [Embed_call (new_knowledge query answer)]"
    by (auto split: sum.splits)
  show ?thesis
    using db v vs tr1 tr0 tr2 db' R' tr
    by (simp add: new_knowledge_def feedback_doc_def make_record_def)
qed

text \<open>One pair learned on the store that holds two chunks.\<close>

theorem self_learn_adds_one_document_witness:
  "self_learn env0 rag_ready ''What is X?'' ''X is Y.''
     = (learned,
        rag_ready\<lparr>vectordb := Some \<lparr>persist_directory = ''./chroma_db_qwen'', collection = two_chunks @
           [\<lparr>rec_text = ''Question: What is X?'' @ [CHR 0x0A] @ ''Verified Answer: X is Y.'',
             rec_metadata = [(''source'', ''user_feedback'')], rec_embedding = 45\<rparr>]\<rparr>\<rparr>,
        [Add_documents_call
           [\<lparr>page_content = ''Question: What is X?'' @ [CHR 0x0A] @ ''Verified Answer: X is Y.'',
             metadata = [(''source'', ''user_feedback'')]\<rparr>],
         Embed_call (''Question: What is X?'' @ [CHR 0x0A] @ ''Verified Answer: X is Y.''),
         Write_call ''./chroma_db_qwen'' 1])"
proof -
  obtain R' tr where h: "self_learn env0 rag_ready ''What is X?'' ''X is Y.'' = (learned, R', tr)"
    by (simp add: world_defs op_defs)
  from self_learn_adds_one_document [OF h] show ?thesis
    unfolding h by (auto simp: world_defs)
qed

text \<open>
  C2 as stated does not hold: a pair whose text has 830 characters, more than the chunk
  size of 800, is written as a single record of 830 characters after one embedding call.
\<close>

theorem learn_long_pair_one_record:
  "fst (self_learn env0 rag_ready (replicate 801 CHR ''x'') ''y'')
     = ''System updated! I will remember this answer for next time.''
   \<and> map_option (map (length \<circ> rec_text) \<circ> collection)
         (vectordb (fst (snd (self_learn env0 rag_ready (replicate 801 CHR ''x'') ''y''))))
     = Some [5, 4, 830]
   \<and> snd (snd (self_learn env0 rag_ready (replicate 801 CHR ''x'') ''y''))
     = [Add_documents_call
          [\<lparr>page_content = ''Question: '' @ replicate 801 CHR ''x'' @ [CHR 0x0A] @ ''Verified Answer: y'',
            metadata = [(''source'', ''user_feedback'')]\<rparr>],
        Embed_call (''Question: '' @ replicate 801 CHR ''x'' @ [CHR 0x0A] @ ''Verified Answer: y''),
        Write_call ''./chroma_db_qwen'' 1]"
  by (simp add: world_defs op_defs)

section \<open>What ingestion returns\<close>

text \<open>
  C3, as the code has it: a call of \<^verbatim>\<open>ingest_documents\<close> that does not return an error
  message returns the sentence \<^verbatim>\<open>Successfully processed N chunks using Ollama embeddings.\<close>,
  where \<open>N\<close> is the decimal number of chunks the splitter produced; exactly these chunks
  were appended to the store, one record each.
\<close>

theorem ingest_success_returns_message:
  assumes "ingest_documents E R file_path = (msg, R', tr)"
    and "\<not> prefix ''Error during ingestion: '' msg"
  shows "\<exists>documents chunks old new db'.
           text_loader_load E file_path = Inr documents
         \<and> split_documents E 800 100 documents = Inr chunks
         \<and> msg = ''Successfully processed '' @ str_of_nat (length chunks) @ '' chunks using Ollama embeddings.''
         \<and> vectordb R' = Some db'
         \<and> collection db' = old @ new
         \<and> (case vectordb R of
              Some db \<Rightarrow> old = collection db
            | None \<Rightarrow> chroma_open E PERSIST_DIRECTORY = Inr old)
         \<and> map doc_of new = chunks"
proof -
  obtain r tr0 where body: "ingest_body E R file_path = (r, tr0)"
    by (cases "ingest_body E R file_path")
  from assms body obtain n db' where r: "r = Inr (n, db')"
    and msg: "msg = success_message n" and R': "R' = R\<lparr>vectordb := Some db'\<rparr>"
    by (cases r) (auto simp: ingest_documents_def)
  from ingest_body_Inr [OF body [unfolded r]] obtain documents chunks old vs where
    "text_loader_load E file_path = Inr documents"
    "split_documents E 800 100 documents = Inr chunks"
    "n = length chunks" "length vs = length chunks"
    "case vectordb R of Some db \<Rightarrow> old = collection db \<and> persist_directory db' = persist_directory db
       | None \<Rightarrow> chroma_open E PERSIST_DIRECTORY = Inr old \<and> persist_directory db' = PERSIST_DIRECTORY"
    "collection db' = old @ map2 make_record chunks vs"
    by blast
  then show ?thesis
    using msg R' map_doc_of_map2 [of vs chunks]
    by (auto simp: success_message_def split: option.splits)
qed

text \<open>The first ingestion in the concrete world.\<close>

theorem ingest_success_returns_message_witness:
  "\<not> prefix ''Error during ingestion: '' (fst (ingest_documents env0 rag_fresh ''temp_data.txt''))
   \<and> (\<exists>documents chunks old new db'.
           text_loader_load env0 ''temp_data.txt'' = Inr documents
         \<and> split_documents env0 800 100 documents = Inr chunks
         \<and> fst (ingest_documents env0 rag_fresh ''temp_data.txt'')
             = ''Successfully processed '' @ str_of_nat (length chunks) @ '' chunks using Ollama embeddings.''
         \<and> vectordb (fst (snd (ingest_documents env0 rag_fresh ''temp_data.txt''))) = Some db'
         \<and> collection db' = old @ new
         \<and> chroma_open env0 PERSIST_DIRECTORY = Inr old
         \<and> map doc_of new = chunks)"
proof -
  have h1: "ingest_documents env0 rag_fresh ''temp_data.txt'' =
     (''Successfully processed 2 chunks using Ollama embeddings.'', rag_ready,
      [Load_call ''temp_data.txt'', Split_call 800 100,
       From_documents_call two_sources ''./chroma_db_qwen'', Open_call ''./chroma_db_qwen'',
       Embed_call ''alpha'', Embed_call ''beta'', Write_call ''./chroma_db_qwen'' 2])"
    by (simp add: world_defs op_defs str_of_nat.simps)
  have h2: "\<not> prefix ''Error during ingestion: '' ''Successfully processed 2 chunks using Ollama embeddings.''"
    by simp
  from ingest_success_returns_message [OF h1 h2] show ?thesis
    unfolding h1 by (simp add: rag_fresh_def)
qed

text \<open>
  C3 as stated does not hold: the value returned for two chunks is a sentence, not the
  number two.
\<close>

theorem ingest_returns_sentence:
  "fst (ingest_documents env0 rag_fresh ''temp_data.txt'')
     = ''Successfully processed 2 chunks using Ollama embeddings.''
   \<and> fst (ingest_documents env0 rag_fresh ''temp_data.txt'') \<noteq> str_of_nat 2"
  by (simp add: world_defs op_defs str_of_nat.simps)

section \<open>Errors\<close>




section \<open>The empty query\<close>

text \<open>
  C6, as the code has it: the front end stops an empty query, since the button's handler
  calls \<^verbatim>\<open>query_system\<close> only for a non-empty text input and otherwise does nothing;
  \<^verbatim>\<open>query_system\<close> itself does not look at the text, and on an initialised object it
  invokes the retrieval chain with the empty query, which begins by calling the embedding
  model on it.
\<close>

theorem empty_query_stopped_by_front_end:
  "generate_insight E S [] = (S, [])
   \<and> (\<not> not_vectordb E (vectordb R) \<and> llm R \<noteq> None
        \<longrightarrow> take 2 (snd (snd (query_system E R []))) = [Invoke_call [] 3, Embed_call []])"
  by (auto simp: generate_insight_def query_system_def qa_chain_invoke_def Let_def not_vectordb_def
      split: option.splits sum.splits)

text \<open>Both halves on the object that holds two chunks.\<close>

theorem empty_query_stopped_by_front_end_witness:
  "generate_insight env0 \<lparr>rag = rag_ready, last_round = None\<rparr> [] = (\<lparr>rag = rag_ready, last_round = None\<rparr>, [])
   \<and> \<not> not_vectordb env0 (vectordb rag_ready) \<and> llm rag_ready \<noteq> None
   \<and> take 2 (snd (snd (query_system env0 rag_ready []))) = [Invoke_call [] 3, Embed_call []]"
  using empty_query_stopped_by_front_end [of env0 "\<lparr>rag = rag_ready, last_round = None\<rparr>" rag_ready]
  by (simp add: world_defs not_vectordb_def)

text \<open>
  C6 as stated does not hold: \<^verbatim>\<open>query_system\<close> called with the empty string reaches the
  embedding model and then the language model, and returns an answer.
\<close>

theorem query_empty_reaches_providers:
  "query_system env0 rag_ready ''''
     = ((''X is Y.'', two_sources), rag_ready,
        [Invoke_call '''' 3, Embed_call '''', Generate_call ''alphabeta''])"
  by (simp add: world_defs op_defs)

section \<open>The first ingestion\<close>

text \<open>
  C7: a missing store directory is no error at construction (with both models
  constructed the object starts with no store, a language model and no error shown); and
  when there is no store object, a successful ingestion calls \<^verbatim>\<open>Chroma.from_documents\<close>
  with the chunks and the configured \<^verbatim>\<open>./chroma_db_qwen\<close> and keeps the store it returns,
  whose directory is the configured one and which holds what was found there followed by
  one record per chunk, the last call made being the write of these records to that
  directory.
\<close>

theorem first_ingest_creates_store:
  "(\<not> os_path_exists E PERSIST_DIRECTORY \<and> ollama_embeddings E ''nomic-embed-text'' = None
      \<and> chat_ollama_new E the_llm = None
     \<longrightarrow> rag_init E = (\<lparr>embedding_model = Some ''nomic-embed-text'', vectordb = None, llm = Some the_llm\<rparr>, []))
   \<and> (vectordb R = None \<and> ingest_documents E R file_path = (msg, R', tr)
        \<and> \<not> prefix ''Error during ingestion: '' msg
     \<longrightarrow> (\<exists>db old new tr1. vectordb R' = Some db
            \<and> persist_directory db = ''./chroma_db_qwen''
            \<and> chroma_open E ''./chroma_db_qwen'' = Inr old
            \<and> collection db = old @ new
            \<and> tr = Load_call file_path # Split_call 800 100
                   # From_documents_call (map doc_of new) ''./chroma_db_qwen''
                   # tr1 @ [Write_call ''./chroma_db_qwen'' (length new)]))"
proof (intro conjI impI)
  assume "\<not> os_path_exists E PERSIST_DIRECTORY \<and> ollama_embeddings E ''nomic-embed-text'' = None
      \<and> chat_ollama_new E the_llm = None"
  then show "rag_init E = (\<lparr>embedding_model = Some ''nomic-embed-text'', vectordb = None, llm = Some the_llm\<rparr>, [])"
    by (simp add: rag_init_def)
next
  assume a: "vectordb R = None \<and> ingest_documents E R file_path = (msg, R', tr)
        \<and> \<not> prefix ''Error during ingestion: '' msg"
  obtain r tr0 where body: "ingest_body E R file_path = (r, tr0)"
    by (cases "ingest_body E R file_path")
  from a body obtain n db' where r: "r = Inr (n, db')"
    and R': "R' = R\<lparr>vectordb := Some db'\<rparr>" and tr: "tr = tr0"
    by (cases r) (auto simp: ingest_documents_def)
  from ingest_body_Inr [OF body [unfolded r]] a obtain chunks old vs tr1 where
    len: "length vs = length chunks"
    and op: "chroma_open E PERSIST_DIRECTORY = Inr old"
    and dir: "persist_directory db' = PERSIST_DIRECTORY"
    and col: "collection db' = old @ map2 make_record chunks vs"
    and tr0: "tr0 = Load_call file_path # Split_call 800 100
                # From_documents_call chunks PERSIST_DIRECTORY
                # tr1 @ [Write_call (persist_directory db') (length chunks)]"
    by auto
  have "vectordb R' = Some db'
      \<and> persist_directory db' = ''./chroma_db_qwen''
      \<and> chroma_open E ''./chroma_db_qwen'' = Inr old
      \<and> collection db' = old @ map2 make_record chunks vs
      \<and> tr = Load_call file_path # Split_call 800 100
             # From_documents_call (map doc_of (map2 make_record chunks vs)) ''./chroma_db_qwen''
             # tr1 @ [Write_call ''./chroma_db_qwen'' (length (map2 make_record chunks vs))]"
    using R' tr len op dir col tr0 map_doc_of_map2 [OF len]
    by (simp add: PERSIST_DIRECTORY_def)
  then show "\<exists>db old new tr1. vectordb R' = Some db
            \<and> persist_directory db = ''./chroma_db_qwen''
            \<and> chroma_open E ''./chroma_db_qwen'' = Inr old
            \<and> collection db = old @ new
            \<and> tr = Load_call file_path # Split_call 800 100
                   # From_documents_call (map doc_of new) ''./chroma_db_qwen''
                   # tr1 @ [Write_call ''./chroma_db_qwen'' (length new)]"
    by blast
qed

text \<open>From construction to the first ingestion in the concrete world.\<close>

theorem first_ingest_creates_store_witness:
  "\<not> os_path_exists env0 PERSIST_DIRECTORY
   \<and> rag_init env0 = (rag_fresh, [])
   \<and> vectordb rag_fresh = None
   \<and> ingest_documents env0 rag_fresh ''temp_data.txt''
       = (''Successfully processed 2 chunks using Ollama embeddings.'', rag_ready, first_ingest_trace)
   \<and> (\<exists>db old new tr1. vectordb rag_ready = Some db
            \<and> persist_directory db = ''./chroma_db_qwen''
            \<and> chroma_open env0 ''./chroma_db_qwen'' = Inr old
            \<and> collection db = old @ new
            \<and> first_ingest_trace = Load_call ''temp_data.txt'' # Split_call 800 100
                   # From_documents_call (map doc_of new) ''./chroma_db_qwen''
                   # tr1 @ [Write_call ''./chroma_db_qwen'' (length new)])"
proof -
  have h0: "\<not> os_path_exists env0 PERSIST_DIRECTORY \<and> ollama_embeddings env0 ''nomic-embed-text'' = None
      \<and> chat_ollama_new env0 the_llm = None"
    by (simp add: env0_def)
  have h1: "vectordb rag_fresh = None"
    by (simp add: rag_fresh_def)
  have h2: "ingest_documents env0 rag_fresh ''temp_data.txt''
       = (''Successfully processed 2 chunks using Ollama embeddings.'', rag_ready, first_ingest_trace)"
    by (simp add: world_defs op_defs first_ingest_trace_def str_of_nat.simps)
  have h3: "\<not> prefix ''Error during ingestion: '' ''Successfully processed 2 chunks using Ollama embeddings.''"
    by simp
  note t = first_ingest_creates_store [of env0 rag_fresh "''temp_data.txt''"
      "''Successfully processed 2 chunks using Ollama embeddings.''" rag_ready first_ingest_trace]
  from t h0 have a: "rag_init env0 = (rag_fresh, [])"
    by (simp add: rag_fresh_def)
  from t h1 h2 h3 have b: "\<exists>db old new tr1. vectordb rag_ready = Some db
            \<and> persist_directory db = ''./chroma_db_qwen''
            \<and> chroma_open env0 ''./chroma_db_qwen'' = Inr old
            \<and> collection db = old @ new
            \<and> first_ingest_trace = Load_call ''temp_data.txt'' # Split_call 800 100
                   # From_documents_call (map doc_of new) ''./chroma_db_qwen''
                   # tr1 @ [Write_call ''./chroma_db_qwen'' (length new)]"
    by blast
  from h0 h1 h2 a b show ?thesis by blast
qed

section \<open>A failed ingestion\<close>

text \<open>
  C8: when the file loads and then the splitter raises, or the splitter succeeds and
  embedding one of the chunks raises, \<^verbatim>\<open>ingest_documents\<close> returns an error message for
  this call and the object, with every record of its store, is as before; nothing was
  written. The message is that of the failure itself when splitting failed or a store
  object was present.
\<close>

theorem ingest_failure_keeps_store:
  assumes "text_loader_load E file_path = Inr documents"
    and "split_documents E 800 100 documents = Inl e
         \<or> (\<exists>chunks. split_documents E 800 100 documents = Inr chunks
               \<and> fst (embed_documents E (map page_content chunks)) = Inl e)"
  shows "\<exists>e' tr. ingest_documents E R file_path = (''Error during ingestion: '' @ str_e e', R, tr)
           \<and> (\<forall>d n. Write_call d n \<notin> set tr)
           \<and> (vectordb R \<noteq> None \<or> split_documents E 800 100 documents = Inl e \<longrightarrow> e' = e)"
proof -
  have "\<exists>e' tr. ingest_body E R file_path = (Inl e', tr)
           \<and> (\<forall>d n. Write_call d n \<notin> set tr)
           \<and> (vectordb R \<noteq> None \<or> split_documents E 800 100 documents = Inl e \<longrightarrow> e' = e)"
    using assms(2)
  proof (elim disjE exE conjE)
    assume "split_documents E 800 100 documents = Inl e"
    with assms(1) show ?thesis
      by (simp add: ingest_body_def)
  next
    fix chunks
    assume sp: "split_documents E 800 100 documents = Inr chunks"
      and emb: "fst (embed_documents E (map page_content chunks)) = Inl e"
    note add = add_documents_no_write_on_embed_raise [OF emb]
    note nw = embed_trace_no_write [of _ _ E "map page_content chunks"]
    show ?thesis
    proof (cases "vectordb R")
      case (Some db)
      with assms(1) sp add [of db] nw show ?thesis
        by (simp add: ingest_body_def)
    next
      case None
      show ?thesis
      proof (cases "embedding_model R")
        case None
        with \<open>vectordb R = None\<close> assms(1) sp show ?thesis
          by (simp add: ingest_body_def)
      next
        case (Some em)
        show ?thesis
        proof (cases "chroma_open E PERSIST_DIRECTORY")
          case (Inl e0)
          with Some \<open>vectordb R = None\<close> assms(1) sp show ?thesis
            by (simp add: ingest_body_def from_documents_def)
        next
          case (Inr recs)
          with Some \<open>vectordb R = None\<close> assms(1) sp nw
            add [of "\<lparr>persist_directory = PERSIST_DIRECTORY, collection = recs\<rparr>"] show ?thesis
            by (simp add: ingest_body_def from_documents_def)
        qed
      qed
    qed
  qed
  then show ?thesis
    using ingest_raise_result by blast
qed

text \<open>An embedding model that refuses connections leaves the two chunks of the store alone.\<close>

theorem ingest_failure_keeps_store_witness:
  "text_loader_load env_embed_down ''temp_data.txt''
     = Inr [\<lparr>page_content = ''alpha beta'', metadata = [(''source'', ''temp_data.txt'')]\<rparr>]
   \<and> split_documents env_embed_down 800 100
        [\<lparr>page_content = ''alpha beta'', metadata = [(''source'', ''temp_data.txt'')]\<rparr>] = Inr two_sources
   \<and> fst (embed_documents env_embed_down (map page_content two_sources)) = Inl (Exception ''connection refused'')
   \<and> (\<exists>tr. ingest_documents env_embed_down rag_ready ''temp_data.txt''
              = (''Error during ingestion: connection refused'', rag_ready, tr)
            \<and> (\<forall>d n. Write_call d n \<notin> set tr))"
proof -
  have h1: "text_loader_load env_embed_down ''temp_data.txt''
     = Inr [\<lparr>page_content = ''alpha beta'', metadata = [(''source'', ''temp_data.txt'')]\<rparr>]"
    by (simp add: world_defs)
  have h2: "split_documents env_embed_down 800 100
        [\<lparr>page_content = ''alpha beta'', metadata = [(''source'', ''temp_data.txt'')]\<rparr>] = Inr two_sources"
    by (simp add: world_defs)
  have h3: "fst (embed_documents env_embed_down (map page_content two_sources)) = Inl (Exception ''connection refused'')"
    by (simp add: world_defs)
  have h: "split_documents env_embed_down 800 100
        [\<lparr>page_content = ''alpha beta'', metadata = [(''source'', ''temp_data.txt'')]\<rparr>] = Inl (Exception ''connection refused'')
     \<or> (\<exists>chunks. split_documents env_embed_down 800 100
        [\<lparr>page_content = ''alpha beta'', metadata = [(''source'', ''temp_data.txt'')]\<rparr>] = Inr chunks
         \<and> fst (embed_documents env_embed_down (map page_content chunks)) = Inl (Exception ''connection refused''))"
    using h2 h3 by blast
  have v: "vectordb rag_ready \<noteq> None"
    by (simp add: rag_ready_def)
  from ingest_failure_keeps_store [OF h1 h, of rag_ready] v
  have "\<exists>tr. ingest_documents env_embed_down rag_ready ''temp_data.txt''
              = (''Error during ingestion: connection refused'', rag_ready, tr)
            \<and> (\<forall>d n. Write_call d n \<notin> set tr)"
    by auto
  with h1 h2 h3 show ?thesis by blast
qed

section \<open>Repeating a query\<close>

text \<open>
  C9: a query leaves the object and its store as they were, and two queries with the
  same text that return, under the same embedding model, ranking and store, return the
  same ranked sources, whatever the language model answered. A query returns when no
  call it made to the language model raised.
\<close>

theorem query_sources_deterministic:
  assumes "embed E2 = embed E1" and "rank E2 = rank E1" and "chroma_bool E2 = chroma_bool E1"
    and "query_system E1 R query = ((a1, s1), R1, t1)"
    and "query_system E2 R1 query = ((a2, s2), R2, t2)"
    and "\<forall>m p e. Generate_call p \<in> set t1 \<and> llm R = Some m \<longrightarrow> llm_generate E1 m p \<noteq> Inl e"
    and "\<forall>m p e. Generate_call p \<in> set t2 \<and> llm R = Some m \<longrightarrow> llm_generate E2 m p \<noteq> Inl e"
  shows "R1 = R \<and> s2 = s1"
proof -
  have R1: "R1 = R"
    using query_system_state [of E1 R query] assms(4) by simp
  show ?thesis
  proof (cases "not_vectordb E1 (vectordb R) \<or> llm R = None")
    case True
    with assms(1-5) R1 show ?thesis
      by (auto simp: query_system_def not_vectordb_def split: option.splits)
  next
    case False
    then obtain db m where db: "vectordb R = Some db" and m: "llm R = Some m"
      and tb: "chroma_bool E1 db"
      by (auto simp: not_vectordb_def split: option.splits)
    show ?thesis
    proof (cases "embed E1 query")
      case (Inl e)
      with assms(1-5) R1 db m tb show ?thesis
        by (auto simp: query_system_def not_vectordb_def qa_chain_invoke_def)
    next
      case (Inr v)
      let ?src = "map doc_of (take 3 (rank E1 v (collection db)))"
      from assms(4) assms(6) db m tb Inr
      have s1: "s1 = ?src"
        by (auto simp: query_system_def not_vectordb_def qa_chain_invoke_def Let_def split: sum.splits)
      from assms(1-3) assms(5) assms(7) R1 db m tb Inr
      have s2: "s2 = ?src"
        by (auto simp: query_system_def not_vectordb_def qa_chain_invoke_def Let_def split: sum.splits)
      from s1 s2 R1 show ?thesis by simp
    qed
  qed
qed

text \<open>Two language models that answer differently; the sources are the same.\<close>

theorem query_sources_deterministic_witness:
  "embed env_llm_other = embed env0 \<and> rank env_llm_other = rank env0
   \<and> chroma_bool env_llm_other = chroma_bool env0
   \<and> query_system env0 rag_ready ''What is X?''
       = ((''X is Y.'', two_sources), rag_ready,
          [Invoke_call ''What is X?'' 3, Embed_call ''What is X?'', Generate_call ''alphabetaWhat is X?''])
   \<and> query_system env_llm_other rag_ready ''What is X?''
       = ((''Y, I think.'', two_sources), rag_ready,
          [Invoke_call ''What is X?'' 3, Embed_call ''What is X?'', Generate_call ''alphabetaWhat is X?''])"
proof -
  have h1: "embed env_llm_other = embed env0" and h2: "rank env_llm_other = rank env0"
    and h3: "chroma_bool env_llm_other = chroma_bool env0"
    by (simp_all add: world_defs)
  have h4: "query_system env0 rag_ready ''What is X?''
       = ((''X is Y.'', two_sources), rag_ready,
          [Invoke_call ''What is X?'' 3, Embed_call ''What is X?'', Generate_call ''alphabetaWhat is X?''])"
    by (simp add: world_defs op_defs)
  obtain a2 s2 where h5: "query_system env_llm_other rag_ready ''What is X?''
       = ((a2, s2), rag_ready, [Invoke_call ''What is X?'' 3, Embed_call ''What is X?'', Generate_call ''alphabetaWhat is X?''])"
    and a2: "a2 = ''Y, I think.''"
    by (simp add: world_defs op_defs)
  have h6: "\<forall>m p e. Generate_call p \<in> set [Invoke_call ''What is X?'' 3, Embed_call ''What is X?'', Generate_call ''alphabetaWhat is X?'']
       \<and> llm rag_ready = Some m \<longrightarrow> llm_generate env0 m p \<noteq> Inl e"
    by (simp add: world_defs)
  have h7: "\<forall>m p e. Generate_call p \<in> set [Invoke_call ''What is X?'' 3, Embed_call ''What is X?'', Generate_call ''alphabetaWhat is X?'']
       \<and> llm rag_ready = Some m \<longrightarrow> llm_generate env_llm_other m p \<noteq> Inl e"
    by (simp add: world_defs)
  from query_sources_deterministic [OF h1 h2 h3 h4 h5 h6 h7] have "s2 = two_sources"
    by simp
  with h1 h2 h3 h4 h5 a2 show ?thesis by simp
qed

section \<open>Learning without a store\<close>

text \<open>
  C10: with no store object \<^verbatim>\<open>self_learn\<close> returns the error message of the
  \<^verbatim>\<open>AttributeError\<close> raised by calling \<^verbatim>\<open>add_documents\<close> on \<^verbatim>\<open>None\<close>; the object is
  unchanged, so there is still no store, and no call was made.
\<close>

theorem learn_without_store_fails:
  assumes "vectordb R = None"
  shows "self_learn E R query answer =
           (''Error during self-learning: '' @ [CHR 0x27] @ ''NoneType'' @ [CHR 0x27]
              @ '' object has no attribute '' @ [CHR 0x27] @ ''add_documents'' @ [CHR 0x27], R, [])"
  using assms by (simp add: self_learn_def learn_body_def attribute_error_def)

text \<open>Learning on the object constructed with no directory on disk.\<close>

theorem learn_without_store_fails_witness:
  "\<not> os_path_exists env0 PERSIST_DIRECTORY
   \<and> vectordb (fst (rag_init env0)) = None
   \<and> self_learn env0 (fst (rag_init env0)) ''What is X?'' ''X is Y.''
       = (''Error during self-learning: '' @ [CHR 0x27] @ ''NoneType'' @ [CHR 0x27]
              @ '' object has no attribute '' @ [CHR 0x27] @ ''add_documents'' @ [CHR 0x27],
          fst (rag_init env0), [])"
proof -
  have h: "vectordb (fst (rag_init env0)) = None"
    by (simp add: world_defs op_defs)
  from learn_without_store_fails [OF h, of env0 "''What is X?''" "''X is Y.''"] h
  show ?thesis by (simp add: env0_def)
qed

end
